theory Spec2Isabelle
  imports Main
begin

section \<open>JavaScript values and strings\<close>

text \<open>
  The service is one Express file, \<^verbatim>\<open>src/index.js\<close>. Request bodies and the stored
  players are parsed JSON objects, so a field can hold any JSON value and reading a
  property that is not there gives \<^verbatim>\<open>undefined\<close>. An object is the list of its own
  properties, whose keys are distinct. The handlers never compute with a number: all they
  can do with one is turn it into a string, so a number is kept as the string that
  JavaScript gives for it (\<^verbatim>\<open>36\<close>, \<^verbatim>\<open>1.5\<close>, \<^verbatim>\<open>1e+21\<close>). A string is a list of code units
  below 256 (Latin-1), which is where \<^verbatim>\<open>toLowerCase\<close>, \<^verbatim>\<open>trim\<close> and the regular expressions
  of the file are modelled exactly. The handlers read properties of fixed names, none of
  which an object inherits; a request body that is a JSON array has none of them, like the
  empty object.
\<close>

datatype jsval =
    JUndefined
  | JNull
  | JBool bool
  | JNum string \<comment> \<open>a number, by its string\<close>
  | JStr string
  | JArr "jsval list"
  | JObj "(string \<times> jsval) list"

type_synonym jsobj = "(string \<times> jsval) list"

datatype io_step = Mkdir | WriteImage | WriteData

datatype js_error = TypeError | RangeError | IOError io_step

definition js_get :: "jsobj \<Rightarrow> string \<Rightarrow> jsval" where
  \<comment> \<open>\<^verbatim>\<open>obj[key]\<close>: the value of an own property, \<^verbatim>\<open>undefined\<close> when there is none\<close>
  "js_get obj k = (case map_of obj k of None \<Rightarrow> JUndefined | Some v \<Rightarrow> v)"

definition lower_char :: "char \<Rightarrow> char" where
  \<comment> \<open>A-Z and the Latin-1 capitals 0xC0-0xDE (but the multiplication sign 0xD7) move up by 32\<close>
  "lower_char c =
     (let n = of_char c :: nat
      in if (65 \<le> n \<and> n \<le> 90) \<or> (192 \<le> n \<and> n \<le> 222 \<and> n \<noteq> 215)
         then char_of (n + 32) else c)"

definition toLowerCase :: "string \<Rightarrow> string" where
  "toLowerCase s = map lower_char s"

fun js_toLowerCase :: "jsval \<Rightarrow> js_error + string" where
  \<comment> \<open>\<^verbatim>\<open>v.toLowerCase()\<close>: only a string has the method. On \<^verbatim>\<open>undefined\<close> and \<^verbatim>\<open>null\<close>
      the property read throws; on a number, a boolean, an array or an object the
      property is \<^verbatim>\<open>undefined\<close> or, for an object with such a key, a JSON value, and the
      call throws. Each is a TypeError.\<close>
  "js_toLowerCase (JStr s) = Inr (toLowerCase s)"
| "js_toLowerCase _ = Inl TypeError"

definition js_space :: "char \<Rightarrow> bool" where
  \<comment> \<open>white space and line terminators below 256: TAB, LF, VT, FF, CR, SP, NBSP\<close>
  "js_space c = (of_char c \<in> {9, 10, 11, 12, 13, 32, 160 :: nat})"

definition js_trim :: "string \<Rightarrow> string" where
  "js_trim s = rev (dropWhile js_space (rev (dropWhile js_space s)))"

fun js_to_string :: "jsval \<Rightarrow> js_error + string"
  and join_elements :: "jsval list \<Rightarrow> js_error + string" where
  \<comment> \<open>The conversion of a value to a string, as \<^verbatim>\<open>RegExp.prototype.exec\<close> and a property
      access apply it. An array is joined with commas, \<^verbatim>\<open>null\<close> and \<^verbatim>\<open>undefined\<close>
      elements giving the empty string. A parsed object answers \<^verbatim>\<open>[object Object]\<close> through
      the inherited \<^verbatim>\<open>toString\<close>; with a key \<^verbatim>\<open>toString\<close> of its own, which holds no function,
      no method gives a primitive and the conversion throws a TypeError.\<close>
  "js_to_string JUndefined = Inr ''undefined''"
| "js_to_string JNull = Inr ''null''"
| "js_to_string (JBool b) = Inr (if b then ''true'' else ''false'')"
| "js_to_string (JNum r) = Inr r"
| "js_to_string (JStr s) = Inr s"
| "js_to_string (JArr xs) = join_elements xs"
| "js_to_string (JObj ps) =
     (if map_of ps ''toString'' = None then Inr ''[object Object]'' else Inl TypeError)"
| "join_elements [] = Inr []"
| "join_elements (x # xs) =
     (case (if x = JNull \<or> x = JUndefined then Inr [] else js_to_string x) of
        Inl e \<Rightarrow> Inl e
      | Inr a \<Rightarrow>
          (if xs = [] then Inr a
           else (case join_elements xs of Inl e \<Rightarrow> Inl e | Inr b \<Rightarrow> Inr (a @ '','' @ b))))"

section \<open>slugify\<close>

definition slug_char :: "char \<Rightarrow> bool" where
  \<comment> \<open>the class \<^verbatim>\<open>[a-z0-9]\<close>\<close>
  "slug_char c = (c \<in> set ''abcdefghijklmnopqrstuvwxyz0123456789'')"

definition is_hyphen :: "char \<Rightarrow> bool" where
  "is_hyphen c = (c = CHR ''-'')"

function replace_runs :: "string \<Rightarrow> string" where
  \<comment> \<open>\<^verbatim>\<open>.replace(/[^a-z0-9]+/g, '-')\<close>: scanning from the left, a character outside the
      class starts a match, which is greedy and so takes the whole run\<close>
  "replace_runs [] = []"
| "replace_runs (c # cs) =
     (if slug_char c then c # replace_runs cs
      else CHR ''-'' # replace_runs (dropWhile (\<lambda>d. \<not> slug_char d) cs))"
  by pat_completeness auto
termination
  by (relation "measure length") (auto simp: le_imp_less_Suc length_dropWhile_le)

fun strip_trailing :: "string \<Rightarrow> string" where
  \<comment> \<open>the alternative \<^verbatim>\<open>-+$\<close> matches at a position exactly when all that is left is a
      non-empty run of hyphens\<close>
  "strip_trailing [] = []"
| "strip_trailing (c # cs) =
     (if list_all is_hyphen (c # cs) then [] else c # strip_trailing cs)"

definition strip_hyphens :: "string \<Rightarrow> string" where
  \<comment> \<open>\<^verbatim>\<open>.replace(/^-+|-+$/g, '')\<close>: \<^verbatim>\<open>^-+\<close> can only match at position 0\<close>
  "strip_hyphens s = strip_trailing (dropWhile is_hyphen s)"

definition slugify :: "jsval \<Rightarrow> js_error + string" where
  \<comment> \<open>the default parameter \<^verbatim>\<open>value = ''\<close> replaces \<^verbatim>\<open>undefined\<close> only\<close>
  "slugify v =
     (case js_toLowerCase (if v = JUndefined then JStr [] else v) of
        Inl e \<Rightarrow> Inl e
      | Inr low \<Rightarrow>
          (let t = strip_hyphens (replace_runs low)
           in Inr (if t = [] then ''player'' else t)))"

section \<open>Image payloads\<close>

definition mapMimeToExtension :: "string \<Rightarrow> string" where
  "mapMimeToExtension mime =
     (if mime = ''image/svg+xml'' then ''.svg''
      else if mime = ''image/jpeg'' \<or> mime = ''image/jpg'' then ''.jpg''
      else ''.png'')"

definition mime_char :: "char \<Rightarrow> bool" where
  \<comment> \<open>the class \<^verbatim>\<open>[a-zA-Z0-9+.-]\<close>\<close>
  "mime_char c =
     (c \<in> set ''abcdefghijklmnopqrstuvwxyzABCDEFGHIJKLMNOPQRSTUVWXYZ0123456789+.-'')"

definition line_terminator :: "char \<Rightarrow> bool" where
  \<comment> \<open>what \<^verbatim>\<open>.\<close> does not match: LF and CR (the other two are above 255)\<close>
  "line_terminator c = (of_char c \<in> {10, 13 :: nat})"

definition dataUrlMatch :: "string \<Rightarrow> (string \<times> string) option" where
  \<comment> \<open>\<^verbatim>\<open>/^data:(image\/[a-zA-Z0-9+.-]+);base64,(.+)$/.exec(s)\<close>, giving groups 1 and 2.
      The class has no \<^verbatim>\<open>;\<close>, so group 1 is the whole run of class characters.\<close>
  "dataUrlMatch s =
     (if take 11 s = ''data:image/'' then
        (let sub = takeWhile mime_char (drop 11 s);
             rest = dropWhile mime_char (drop 11 s);
             payload = drop 8 rest
         in if sub \<noteq> [] \<and> take 8 rest = '';base64,'' \<and> payload \<noteq> []
               \<and> \<not> list_ex line_terminator payload
            then Some (''image/'' @ sub, payload) else None)
      else None)"

definition exec_dataUrl :: "jsval \<Rightarrow> js_error + (string \<times> string) option" where
  \<comment> \<open>\<^verbatim>\<open>exec\<close> first turns its argument into a string, which can throw\<close>
  "exec_dataUrl v =
     (case js_to_string v of Inl e \<Rightarrow> Inl e | Inr s \<Rightarrow> Inr (dataUrlMatch s))"

datatype file_data =
    Base64Bytes string \<comment> \<open>the bytes of \<^verbatim>\<open>Buffer.from(s, 'base64')\<close>\<close>
  | ArrayBytes "jsval list" \<comment> \<open>the bytes of \<^verbatim>\<open>Buffer.from(array)\<close>, one for each element\<close>
  | ObjectBytes jsobj \<comment> \<open>the bytes of \<^verbatim>\<open>Buffer.from(object)\<close>\<close>
  | JsonText "jsobj list" \<comment> \<open>\<^verbatim>\<open>JSON.stringify(players, null, 2)\<close>\<close>

section \<open>Server state and responses\<close>

record fsys =
  dirs :: "string set"
  files :: "string \<rightharpoonup> file_data"

record server =
  players :: "jsobj list"
  disk :: fsys

datatype buffer_outcome = Accepted | ThrowsTypeError | ThrowsRangeError

text \<open>
  Whether a call of \<^verbatim>\<open>fs.mkdir\<close> or \<^verbatim>\<open>fs.writeFile\<close> resolves or rejects is the
  environment's choice; a rejected call leaves the disk as it was. What \<^verbatim>\<open>Buffer.from\<close>
  makes of a plain object depends on Node's own code (it looks at the keys \<^verbatim>\<open>valueOf\<close>,
  \<^verbatim>\<open>length\<close>, \<^verbatim>\<open>type\<close> and \<^verbatim>\<open>data\<close>), which is not part of this repository: whether it
  accepts the object or throws is taken from the environment too.
\<close>

record io_env =
  mkdir_ok :: bool
  write_image_ok :: bool
  write_data_ok :: bool
  buffer_from_object :: "jsobj \<Rightarrow> buffer_outcome"

fun buffer_from_base64 :: "io_env \<Rightarrow> jsval \<Rightarrow> js_error + file_data" where
  \<comment> \<open>\<^verbatim>\<open>Buffer.from(v, 'base64')\<close>. Node decodes any string, skipping what is not base64,
      and never throws on one. An array gives one byte for each element, which is turned
      into a number; that throws for the elements whose conversion to a string throws.
      \<^verbatim>\<open>undefined\<close>, \<^verbatim>\<open>null\<close>, a boolean or a number is an invalid argument type, a
      TypeError.\<close>
  "buffer_from_base64 env (JStr s) = Inr (Base64Bytes s)"
| "buffer_from_base64 env (JArr xs) =
     (case join_elements xs of Inl e \<Rightarrow> Inl e | Inr s \<Rightarrow> Inr (ArrayBytes xs))"
| "buffer_from_base64 env (JObj ps) =
     (case buffer_from_object env ps of
        Accepted \<Rightarrow> Inr (ObjectBytes ps)
      | ThrowsTypeError \<Rightarrow> Inl TypeError
      | ThrowsRangeError \<Rightarrow> Inl RangeError)"
| "buffer_from_base64 env v = Inl TypeError"

definition playersDir :: string where
  "playersDir = ''public/players''"

definition playersDataPath :: string where
  "playersDataPath = ''data/iplPlayers.json''"

datatype body =
    Message string
  | Failure string js_error \<comment> \<open>\<^verbatim>\<open>{ message, error: error.message }\<close>\<close>
  | PlayerJson jsobj
  | Roster jsval "jsobj list" \<comment> \<open>\<^verbatim>\<open>{ teamName, players }\<close>\<close>
  | Groups "(string \<times> jsobj list) list" \<comment> \<open>\<^verbatim>\<open>[{ teamName, members }, ...]\<close>\<close>
  | Players "jsobj list" \<comment> \<open>\<^verbatim>\<open>{ players }\<close>\<close>

datatype outcome =
    Response nat body \<comment> \<open>status code and JSON body\<close>
  | Uncaught js_error \<comment> \<open>the handler threw outside a \<^verbatim>\<open>try\<close>\<close>

section \<open>Read handlers\<close>

subsection \<open>GET /players/grouped\<close>

definition to_property_key :: "jsval \<Rightarrow> js_error + string" where
  \<comment> \<open>a property key that is not a string is turned into one\<close>
  "to_property_key v = js_to_string v"

definition object_prototype_keys :: "string list" where
  \<comment> \<open>what the empty object literal inherits from \<^verbatim>\<open>Object.prototype\<close>; each value is
      a function or an object, so it is truthy and has no \<^verbatim>\<open>push\<close>\<close>
  "object_prototype_keys =
     [''constructor'', ''__defineGetter__'', ''__defineSetter__'', ''hasOwnProperty'',
      ''__lookupGetter__'', ''__lookupSetter__'', ''isPrototypeOf'', ''propertyIsEnumerable'',
      ''toString'', ''valueOf'', ''__proto__'', ''toLocaleString'']"

fun add_member :: "string \<Rightarrow> jsobj \<Rightarrow> (string \<times> jsobj list) list \<Rightarrow> (string \<times> jsobj list) list" where
  \<comment> \<open>\<^verbatim>\<open>acc[k].push(player)\<close> on an own property: the property keeps its place\<close>
  "add_member k player [] = []"
| "add_member k player ((k', ms) # acc) =
     (if k' = k then (k', ms @ [player]) # acc else (k', ms) # add_member k player acc)"

definition group_step ::
  "(string \<times> jsobj list) list \<Rightarrow> jsobj \<Rightarrow> js_error + (string \<times> jsobj list) list" where
  \<comment> \<open>the body of the \<^verbatim>\<open>reduce\<close> callback; \<open>acc\<close> lists the own properties in the order
      of their creation\<close>
  "group_step acc player =
     (case to_property_key (js_get player ''teamName'') of
        Inl e \<Rightarrow> Inl e
      | Inr k \<Rightarrow>
          if k \<in> fst ` set acc then Inr (add_member k player acc)
          else if k \<in> set object_prototype_keys then Inl TypeError
          else Inr (acc @ [(k, [player])]))"

fun group_reduce ::
  "(string \<times> jsobj list) list \<Rightarrow> jsobj list \<Rightarrow> js_error + (string \<times> jsobj list) list" where
  "group_reduce acc [] = Inr acc"
| "group_reduce acc (player # ps) =
     (case group_step acc player of Inl e \<Rightarrow> Inl e | Inr acc' \<Rightarrow> group_reduce acc' ps)"

definition is_digit :: "char \<Rightarrow> bool" where
  "is_digit c = (c \<in> set ''0123456789'')"

definition index_value :: "string \<Rightarrow> int" where
  "index_value s = foldl (\<lambda>a c. 10 * a + (of_char c - 48)) 0 s"

definition is_array_index :: "string \<Rightarrow> bool" where
  \<comment> \<open>a canonical numeric string of an integer from 0 to 2^32 - 2\<close>
  "is_array_index s =
     (s \<noteq> [] \<and> list_all is_digit s \<and> (s = ''0'' \<or> take 1 s \<noteq> ''0'')
      \<and> index_value s < 4294967295)"

definition object_entries :: "(string \<times> 'a) list \<Rightarrow> (string \<times> 'a) list" where
  \<comment> \<open>\<^verbatim>\<open>Object.entries\<close>: array-index keys first, in ascending numeric order, then the
      other string keys in the order of their creation\<close>
  "object_entries acc =
     sort_key (\<lambda>e. index_value (fst e)) (filter (\<lambda>e. is_array_index (fst e)) acc)
     @ filter (\<lambda>e. \<not> is_array_index (fst e)) acc"

definition get_players_grouped :: "server \<Rightarrow> outcome" where
  "get_players_grouped st =
     (case group_reduce [] (players st) of
        Inl e \<Rightarrow> Uncaught e
      | Inr groupedMap \<Rightarrow> Response 200 (Groups (object_entries groupedMap)))"

subsection \<open>GET /players?teamName=...\<close>

datatype query_value =
    QAbsent
  | QString string
  | QOther \<comment> \<open>a repeated or bracketed parameter: an array or an object\<close>

fun filter_team :: "jsobj list \<Rightarrow> string \<Rightarrow> js_error + jsobj list" where
  "filter_team [] normalized = Inr []"
| "filter_team (player # ps) normalized =
     (case js_toLowerCase (js_get player ''teamName'') of
        Inl e \<Rightarrow> Inl e
      | Inr t \<Rightarrow>
          (case filter_team ps normalized of
             Inl e \<Rightarrow> Inl e
           | Inr r \<Rightarrow> Inr (if t = normalized then player # r else r)))"

definition player_summary :: "jsobj \<Rightarrow> jsobj" where
  "player_summary player =
     [(''playerName'', js_get player ''playerName''), (''image'', js_get player ''image''),
      (''role'', js_get player ''role''), (''uniquePlayerId'', js_get player ''uniquePlayerId'')]"

definition get_players_by_team :: "server \<Rightarrow> query_value \<Rightarrow> outcome" where
  "get_players_by_team st q =
     (case q of
        QString teamName \<Rightarrow>
          (if teamName = [] then
             Response 400 (Message ''teamName query parameter is required'')
           else
             (case filter_team (players st) (toLowerCase (js_trim teamName)) of
                Inl e \<Rightarrow> Uncaught e
              | Inr [] \<Rightarrow> Response 404 (Message (''No players found for team '' @ teamName))
              | Inr (first # others) \<Rightarrow>
                  Response 200
                    (Roster (js_get first ''teamName'') (map player_summary (first # others)))))
      | _ \<Rightarrow> Response 400 (Message ''teamName query parameter is required''))"

subsection \<open>GET /players/:uniquePlayerId\<close>

fun find_by_id :: "jsobj list \<Rightarrow> string \<Rightarrow> js_error + jsobj option" where
  "find_by_id [] uniquePlayerId = Inr None"
| "find_by_id (entry # ps) uniquePlayerId =
     (case js_toLowerCase (js_get entry ''uniquePlayerId'') of
        Inl e \<Rightarrow> Inl e
      | Inr i \<Rightarrow>
          (if i = toLowerCase uniquePlayerId then Inr (Some entry)
           else find_by_id ps uniquePlayerId))"

definition get_player_by_id :: "server \<Rightarrow> string \<Rightarrow> outcome" where
  "get_player_by_id st uniquePlayerId =
     (case find_by_id (players st) uniquePlayerId of
        Inl e \<Rightarrow> Uncaught e
      | Inr None \<Rightarrow>
          Response 404 (Message (''Player with id '' @ uniquePlayerId @ '' not found''))
      | Inr (Some player) \<Rightarrow> Response 200 (PlayerJson player))"

subsection \<open>GET /players/all\<close>

definition get_players_all :: "server \<Rightarrow> outcome" where
  "get_players_all st = Response 200 (Players (players st))"

section \<open>POST /players\<close>

definition requiredFields :: "string list" where
  "requiredFields =
     [''playerName'', ''role'', ''teamName'', ''countryName'', ''age'', ''battingSyle'',
      ''uniquePlayerId'', ''runsScored'', ''centuriesScored'', ''wicketsTaken'', ''image'']"

definition missing_fields :: "jsobj \<Rightarrow> string list" where
  "missing_fields body = filter (\<lambda>field. js_get body field = JUndefined) requiredFields"

fun join_comma :: "string list \<Rightarrow> string" where
  \<comment> \<open>\<^verbatim>\<open>.join(', ')\<close>\<close>
  "join_comma [] = []"
| "join_comma [x] = x"
| "join_comma (x # y # ys) = x @ '', '' @ join_comma (y # ys)"

fun find_duplicate :: "jsobj list \<Rightarrow> jsval \<Rightarrow> jsval \<Rightarrow> js_error + jsobj option" where
  \<comment> \<open>in each comparison the stored player's side is evaluated first, and the name is
      compared only when the ids differ\<close>
  "find_duplicate [] uniquePlayerId playerName = Inr None"
| "find_duplicate (player # ps) uniquePlayerId playerName =
     (case js_toLowerCase (js_get player ''uniquePlayerId'') of
        Inl e \<Rightarrow> Inl e
      | Inr i \<Rightarrow>
     (case js_toLowerCase uniquePlayerId of
        Inl e \<Rightarrow> Inl e
      | Inr i' \<Rightarrow>
          if i = i' then Inr (Some player)
          else
     (case js_toLowerCase (js_get player ''playerName'') of
        Inl e \<Rightarrow> Inl e
      | Inr n \<Rightarrow>
     (case js_toLowerCase playerName of
        Inl e \<Rightarrow> Inl e
      | Inr n' \<Rightarrow>
          if n = n' then Inr (Some player)
          else find_duplicate ps uniquePlayerId playerName))))"

definition image_extension :: "jsval \<Rightarrow> string" where
  \<comment> \<open>\<^verbatim>\<open>extension\<close> after lines 176-182 (when line 178 throws, it is still the initial
      \<^verbatim>\<open>.png\<close>, and the block is left)\<close>
  "image_extension img =
     (case exec_dataUrl img of
        Inr (Some (mime, payload)) \<Rightarrow> mapMimeToExtension mime
      | _ \<Rightarrow> ''.png'')"

definition image_payload :: "jsval \<Rightarrow> jsval" where
  \<comment> \<open>\<^verbatim>\<open>base64Payload\<close> after lines 175-182\<close>
  "image_payload img =
     (case exec_dataUrl img of
        Inr (Some (mime, payload)) \<Rightarrow> JStr payload
      | _ \<Rightarrow> img)"

definition new_player :: "jsobj \<Rightarrow> string \<Rightarrow> jsobj" where
  "new_player body relativePath =
     [(''playerName'', js_get body ''playerName''),
      (''image'', JStr relativePath),
      (''role'', js_get body ''role''),
      (''teamName'', js_get body ''teamName''),
      (''countryName'', js_get body ''countryName''),
      (''age'', js_get body ''age''),
      (''battingSyle'', js_get body ''battingSyle''),
      (''uniquePlayerId'', js_get body ''uniquePlayerId''),
      (''runsScored'', js_get body ''runsScored''),
      (''centuriesScored'', js_get body ''centuriesScored''),
      (''wicketsTaken'', js_get body ''wicketsTaken'')]"

definition add_player :: "io_env \<Rightarrow> server \<Rightarrow> jsobj \<Rightarrow> (js_error + jsobj) \<times> server" where
  \<comment> \<open>the \<^verbatim>\<open>try\<close> block: \<open>Inl\<close> is what the \<^verbatim>\<open>catch\<close> receives\<close>
  "add_player env st body =
     (case exec_dataUrl (js_get body ''image'') of
        Inl e \<Rightarrow> (Inl e, st)
      | Inr matched \<Rightarrow>
     (case buffer_from_base64 env (image_payload (js_get body ''image'')) of
        Inl e \<Rightarrow> (Inl e, st)
      | Inr imageBuffer \<Rightarrow>
     (case slugify (js_get body ''playerName'') of
        Inl e \<Rightarrow> (Inl e, st)
      | Inr slug \<Rightarrow>
          (let fileName = slug @ image_extension (js_get body ''image'');
               relativePath = ''/players/'' @ fileName;
               absolutePath = playersDir @ ''/'' @ fileName
           in if \<not> mkdir_ok env then (Inl (IOError Mkdir), st)
              else
                (let d1 = (disk st)\<lparr>dirs := dirs (disk st) \<union> {''public'', playersDir}\<rparr>
                 in if \<not> write_image_ok env then (Inl (IOError WriteImage), st\<lparr>disk := d1\<rparr>)
                    else
                      (let d2 = d1\<lparr>files := (files d1)(absolutePath \<mapsto> imageBuffer)\<rparr>;
                           newPlayer = new_player body relativePath;
                           ps = players st @ [newPlayer]
                       in if \<not> write_data_ok env
                          then (Inl (IOError WriteData), st\<lparr>players := ps, disk := d2\<rparr>)
                          else (Inr newPlayer,
                                st\<lparr>players := ps,
                                   disk := d2\<lparr>files := (files d2)(playersDataPath \<mapsto> JsonText ps)\<rparr>\<rparr>)))))))"

definition post_players :: "io_env \<Rightarrow> server \<Rightarrow> jsobj \<Rightarrow> outcome \<times> server" where
  "post_players env st body =
     (if missing_fields body \<noteq> [] then
        (Response 400
           (Message (''Missing required fields: '' @ join_comma (missing_fields body))), st)
      else
        (case find_duplicate (players st) (js_get body ''uniquePlayerId'')
                (js_get body ''playerName'') of
           Inl e \<Rightarrow> (Uncaught e, st)
         | Inr (Some duplicate) \<Rightarrow> (Response 400 (Message ''Player already exists''), st)
         | Inr None \<Rightarrow>
             (case add_player env st body of
                (Inl error, st') \<Rightarrow> (Response 500 (Failure ''Failed to add player'' error), st')
              | (Inr newPlayer, st') \<Rightarrow> (Response 201 (PlayerJson newPlayer), st'))))"

section \<open>The specification's wording\<close>

text \<open>
  The spec describes the file stem as: lowercase, every run of characters outside
  \<^verbatim>\<open>[a-z0-9]\<close> becomes one hyphen, leading and trailing hyphens are stripped, and an empty
  result is replaced by \<^verbatim>\<open>player\<close>. Here a run is written once, at its last character.
\<close>

fun squash_spec :: "string \<Rightarrow> string" where
  "squash_spec [] = []"
| "squash_spec [c] = [if slug_char c then c else CHR ''-'']"
| "squash_spec (c # d # cs) =
     (if slug_char c then c # squash_spec (d # cs)
      else if slug_char d then CHR ''-'' # squash_spec (d # cs)
      else squash_spec (d # cs))"

definition trim_hyphens_spec :: "string \<Rightarrow> string" where
  "trim_hyphens_spec s = rev (dropWhile is_hyphen (rev (dropWhile is_hyphen s)))"

definition slugify_spec :: "string \<Rightarrow> string" where
  "slugify_spec playerName =
     (let stem = trim_hyphens_spec (squash_spec (toLowerCase playerName))
      in if stem = [] then ''player'' else stem)"

text \<open>The eleven field names of the spec's data model (section 3), for comparison.\<close>

definition spec_required_fields :: "string list" where
  "spec_required_fields =
     [''playerName'', ''role'', ''teamName'', ''countryName'', ''age'', ''battingStyle'',
      ''uniquePlayerId'', ''runsScored'', ''centuriesScored'', ''wicketsTaken'', ''image'']"



text \<open>
  The strings that the data-URL pattern accepts, written as a shape:
  \<^verbatim>\<open>data:<mime>;base64,<payload>\<close>, where the MIME type is \<^verbatim>\<open>image/\<close> and a non-empty subtype
  of letters, digits, \<^verbatim>\<open>+\<close>, \<^verbatim>\<open>.\<close> and \<^verbatim>\<open>-\<close>, and the payload is non-empty and on one line.
\<close>

definition data_url_form :: "string \<Rightarrow> string \<Rightarrow> string \<Rightarrow> bool" where
  "data_url_form s mime payload =
     (take 6 mime = ''image/'' \<and> drop 6 mime \<noteq> [] \<and> list_all mime_char (drop 6 mime)
      \<and> payload \<noteq> [] \<and> \<not> list_ex line_terminator payload
      \<and> s = ''data:'' @ mime @ '';base64,'' @ payload)"

text \<open>
  Grouping as the spec words it: the team names in the order of their first occurrence,
  each with the players of exactly that name, in collection order. A team name that is a
  string is its own key.
\<close>

definition team_key :: "jsobj \<Rightarrow> string" where
  "team_key p = (case to_property_key (js_get p ''teamName'') of Inr k \<Rightarrow> k | Inl e \<Rightarrow> [])"

fun first_seen :: "'a list \<Rightarrow> 'a list" where
  "first_seen [] = []"
| "first_seen (x # xs) = x # filter (\<lambda>y. y \<noteq> x) (first_seen xs)"

definition grouped_spec :: "jsobj list \<Rightarrow> (string \<times> jsobj list) list" where
  "grouped_spec ps =
     map (\<lambda>t. (t, filter (\<lambda>p. team_key p = t) ps)) (first_seen (map team_key ps))"

section \<open>Conditions on the stored data and on requests\<close>



definition is_string :: "jsval \<Rightarrow> bool" where
  "is_string v = (case v of JStr s \<Rightarrow> True | _ \<Rightarrow> False)"

definition string_keyed :: "jsobj \<Rightarrow> bool" where
  "string_keyed p = (is_string (js_get p ''uniquePlayerId'') \<and> is_string (js_get p ''playerName''))"

definition collides :: "string \<Rightarrow> string \<Rightarrow> jsobj \<Rightarrow> bool" where
  "collides uid name p =
     (js_toLowerCase (js_get p ''uniquePlayerId'') = Inr (toLowerCase uid)
      \<or> js_toLowerCase (js_get p ''playerName'') = Inr (toLowerCase name))"

definition same_lower :: "jsval \<Rightarrow> jsval \<Rightarrow> bool" where
  \<comment> \<open>both are strings, equal after lowercasing\<close>
  "same_lower a b = (case js_toLowerCase a of Inl e \<Rightarrow> False | Inr s \<Rightarrow> js_toLowerCase b = Inr s)"

definition colliding :: "jsobj \<Rightarrow> jsobj \<Rightarrow> bool" where
  \<comment> \<open>the request's id or name is that of the stored player, case-insensitively\<close>
  "colliding body p =
     (same_lower (js_get p ''uniquePlayerId'') (js_get body ''uniquePlayerId'')
      \<or> same_lower (js_get p ''playerName'') (js_get body ''playerName''))"

text \<open>
  Conditions for the team query: a stored player whose team name is a string, and one whose
  lowercased team name is the normalized query.
\<close>

definition string_team :: "jsobj \<Rightarrow> bool" where
  "string_team p = is_string (js_get p ''teamName'')"

definition on_team :: "string \<Rightarrow> jsobj \<Rightarrow> bool" where
  "on_team normalized p = (js_toLowerCase (js_get p ''teamName'') = Inr normalized)"

definition plain_key :: "string \<Rightarrow> bool" where
  "plain_key k = (\<not> is_array_index k \<and> k \<notin> set object_prototype_keys)"

definition plain_team :: "jsobj \<Rightarrow> bool" where
  "plain_team p =
     (to_property_key (js_get p ''teamName'') = Inr (team_key p) \<and> plain_key (team_key p))"

section \<open>Sample data\<close>

text \<open>A store with one player, request bodies, and outcomes of the disk calls.\<close>

definition io_ok :: io_env where
  "io_ok =
     \<lparr>mkdir_ok = True, write_image_ok = True, write_data_ok = True,
      buffer_from_object = (\<lambda>ps. ThrowsTypeError)\<rparr>"

definition data_write_fails :: io_env where
  "data_write_fails =
     \<lparr>mkdir_ok = True, write_image_ok = True, write_data_ok = False,
      buffer_from_object = (\<lambda>ps. ThrowsTypeError)\<rparr>"



definition kohli :: jsobj where
  "kohli =
     [(''playerName'', JStr ''Virat Kohli''), (''image'', JStr ''/players/virat-kohli.png''),
      (''role'', JStr ''Batter''), (''teamName'', JStr ''Royal Challengers Bengaluru''),
      (''countryName'', JStr ''India''), (''age'', JNum ''36''),
      (''battingSyle'', JStr ''Right Handed''), (''uniquePlayerId'', JStr ''RCB-18''),
      (''runsScored'', JNum ''8004''), (''centuriesScored'', JNum ''8''), (''wicketsTaken'', JNum ''4'')]"

definition sample_store :: server where
  "sample_store = \<lparr>players = [kohli], disk = \<lparr>dirs = {}, files = Map.empty\<rparr>\<rparr>"

definition dhoni_fields :: jsobj where
  "dhoni_fields =
     [(''playerName'', JStr ''MS Dhoni''), (''role'', JStr ''Wicket Keeper''),
      (''teamName'', JStr ''Chennai Super Kings''), (''countryName'', JStr ''India''),
      (''age'', JNum ''43''), (''uniquePlayerId'', JStr ''CSK-07''), (''runsScored'', JNum ''5243''),
      (''centuriesScored'', JNum ''0''), (''wicketsTaken'', JNum ''0'')]"

definition dhoni_body :: jsobj where
  "dhoni_body =
     dhoni_fields @ [(''battingSyle'', JStr ''Right Handed''), (''image'', JStr ''iVBORw0KGgo='')]"

definition styled_body :: jsobj where
  "styled_body =
     dhoni_fields @ [(''battingStyle'', JStr ''Right Handed''), (''image'', JStr ''iVBORw0KGgo='')]"

definition no_role_age_body :: jsobj where
  "no_role_age_body = filter (\<lambda>kv. fst kv \<noteq> ''role'' \<and> fst kv \<noteq> ''age'') dhoni_body"

definition kohli_again_body :: jsobj where
  "kohli_again_body =
     map (\<lambda>kv. if fst kv = ''uniquePlayerId'' then (fst kv, JStr ''rcb-18'') else kv) dhoni_body"




definition array_image_body :: jsobj where
  "array_image_body =
     dhoni_fields @ [(''battingSyle'', JStr ''Right Handed''),
                     (''image'', JArr [JStr ''iVBORw0KGgo=''])]"

definition array_url_body :: jsobj where
  "array_url_body =
     dhoni_fields @ [(''battingSyle'', JStr ''Right Handed''),
                     (''image'', JArr [JStr ''data:image/svg+xml;base64,PHN2Zy8+''])]"

definition object_image_body :: jsobj where
  "object_image_body =
     dhoni_fields @ [(''battingSyle'', JStr ''Right Handed''),
                     (''image'', JObj [(''type'', JStr ''Buffer''), (''data'', JArr [JNum ''137''])])]"

definition accepts_objects :: io_env where
  "accepts_objects =
     \<lparr>mkdir_ok = True, write_image_ok = True, write_data_ok = True,
      buffer_from_object = (\<lambda>ps. Accepted)\<rparr>"

definition team_value_player :: "string \<Rightarrow> jsval \<Rightarrow> jsobj" where
  "team_value_player name team = [(''playerName'', JStr name), (''teamName'', team)]"

definition mixed_team_store :: server where
  "mixed_team_store =
     \<lparr>players = (team_value_player ''A'' (JStr ''7'')) #
                (team_value_player ''B'' (JNum ''7'')) #
                (team_value_player ''C'' (JArr (JNull # JStr ''x'' # []))) # [],
      disk = \<lparr>dirs = {}, files = Map.empty\<rparr>\<rparr>"

definition constructor_team_store :: server where
  "constructor_team_store =
     \<lparr>players = (team_value_player ''A'' (JStr ''constructor'')) # [],
      disk = \<lparr>dirs = {}, files = Map.empty\<rparr>\<rparr>"

definition rohit :: jsobj where
  "rohit =
     [(''playerName'', JStr ''Rohit Sharma''), (''image'', JStr ''/players/rohit-sharma.png''),
      (''role'', JStr ''Batter''), (''teamName'', JStr ''Mumbai Indians''),
      (''countryName'', JStr ''India''), (''age'', JNum ''37''),
      (''battingSyle'', JStr ''Right Handed''), (''uniquePlayerId'', JStr ''MI-45''),
      (''runsScored'', JNum ''6628''), (''centuriesScored'', JNum ''2''),
      (''wicketsTaken'', JNum ''15'')]"

definition two_player_store :: server where
  "two_player_store = \<lparr>players = [kohli, rohit], disk = \<lparr>dirs = {}, files = Map.empty\<rparr>\<rparr>"

definition numeric_name_body :: jsobj where
  "numeric_name_body =
     map (\<lambda>kv. if fst kv = ''uniquePlayerId'' then (fst kv, JStr ''mi-45'')
               else if fst kv = ''playerName'' then (fst kv, JNum ''7'') else kv) dhoni_body"

definition both_styles_body :: jsobj where
  "both_styles_body = dhoni_body @ [(''battingStyle'', JStr ''Right Handed'')]"

definition null_team_store :: server where
  "null_team_store =
     \<lparr>players = [kohli, [(''playerName'', JStr ''MS Dhoni''), (''teamName'', JNull)]],
      disk = \<lparr>dirs = {}, files = Map.empty\<rparr>\<rparr>"

definition team_player :: "string \<Rightarrow> string \<Rightarrow> jsobj" where
  "team_player name team = [(''playerName'', JStr name), (''teamName'', JStr team)]"

definition numbered_team_store :: server where
  "numbered_team_store =
     \<lparr>players = [team_player ''A'' ''Blues'', team_player ''B'' ''11'', team_player ''C'' ''Blues''],
      disk = \<lparr>dirs = {}, files = Map.empty\<rparr>\<rparr>"

definition two_case_store :: server where
  "two_case_store =
     \<lparr>players = [team_player ''A'' ''csk'', team_player ''B'' ''CSK'', team_player ''C'' ''csk''],
      disk = \<lparr>dirs = {}, files = Map.empty\<rparr>\<rparr>"

section \<open>Properties\<close>

subsection \<open>slugify\<close>

lemma squash_spec_run:
  "\<not> slug_char c \<Longrightarrow>
   squash_spec (c # cs) = CHR ''-'' # squash_spec (dropWhile (\<lambda>d. \<not> slug_char d) cs)"
proof (induction cs arbitrary: c)
  case Nil
  then show ?case by simp
next
  case (Cons d cs)
  show ?case
  proof (cases "slug_char d")
    case True
    with Cons.prems show ?thesis by simp
  next
    case False
    with Cons.prems Cons.IH [of d] show ?thesis by simp
  qed
qed

lemma replace_runs_squash: "replace_runs s = squash_spec s"
proof (induction s rule: replace_runs.induct)
  case 1
  show ?case by simp
next
  case (2 c cs)
  show ?case
  proof (cases "slug_char c")
    case True
    with 2 show ?thesis by (cases cs) simp_all
  next
    case False
    with 2 show ?thesis by (simp add: squash_spec_run)
  qed
qed

lemma strip_trailing_rev: "strip_trailing s = rev (dropWhile is_hyphen (rev s))"
proof (induction s)
  case Nil
  show ?case by simp
next
  case (Cons c cs)
  show ?case
  proof (cases "list_all is_hyphen cs")
    case True
    then have "dropWhile is_hyphen (rev cs @ [c]) = dropWhile is_hyphen [c]"
      by (intro dropWhile_append2) (simp add: list_all_iff)
    moreover from True have "dropWhile is_hyphen (rev cs) = []"
      by (simp add: list_all_iff)
    ultimately show ?thesis using True Cons.IH by simp
  next
    case False
    then have "\<exists>x\<in>set (rev cs). \<not> is_hyphen x"
      by (auto simp: list_all_iff)
    then have "dropWhile is_hyphen (rev cs @ [c]) = dropWhile is_hyphen (rev cs) @ [c]"
      by auto
    with False Cons.IH show ?thesis by simp
  qed
qed

text \<open>
  C6: on every string \<open>slugify\<close> computes what the spec words say: the lowercased name with
  each maximal run of characters outside \<^verbatim>\<open>[a-z0-9]\<close> replaced by one hyphen, hyphens at
  both ends stripped, and \<^verbatim>\<open>player\<close> when nothing is left; the three examples of the spec
  come out as written.
\<close>

theorem slugify_refines_spec:
  "slugify (JStr s) = Inr (slugify_spec s)
   \<and> slugify (JStr ''Virat Kohli'') = Inr ''virat-kohli''
   \<and> slugify (JStr ''!!!'') = Inr ''player''
   \<and> slugify (JStr ''MS Dhoni 07'') = Inr ''ms-dhoni-07''"
proof -
  have "slugify (JStr s) = Inr (slugify_spec s)"
    by (simp add: slugify_def slugify_spec_def strip_hyphens_def trim_hyphens_spec_def
        replace_runs_squash strip_trailing_rev Let_def)
  moreover have "slugify (JStr ''Virat Kohli'') = Inr ''virat-kohli''" by code_simp
  moreover have "slugify (JStr ''!!!'') = Inr ''player''" by code_simp
  moreover have "slugify (JStr ''MS Dhoni 07'') = Inr ''ms-dhoni-07''" by code_simp
  ultimately show ?thesis by simp
qed

subsection \<open>Creation: validation and duplicates\<close>

lemma is_string_iff: "is_string v \<longleftrightarrow> (\<exists>s. v = JStr s)"
  by (cases v) (simp_all add: is_string_def)

lemma find_duplicate_find:
  "list_all string_keyed ps \<Longrightarrow>
   find_duplicate ps (JStr uid) (JStr name) = Inr (find (collides uid name) ps)"
proof (induction ps)
  case Nil
  show ?case by simp
next
  case (Cons p ps)
  from Cons.prems obtain i n where
    "js_get p ''uniquePlayerId'' = JStr i" "js_get p ''playerName'' = JStr n"
    by (auto simp: string_keyed_def is_string_iff)
  with Cons show ?case
    by (auto simp: collides_def)
qed

lemma post_players_missing:
  "missing_fields body \<noteq> [] \<Longrightarrow>
   post_players env st body =
     (Response 400 (Message (''Missing required fields: '' @ join_comma (missing_fields body))), st)"
  by (simp add: post_players_def)

lemma post_players_duplicate:
  "missing_fields body = [] \<Longrightarrow>
   find_duplicate (players st) (js_get body ''uniquePlayerId'') (js_get body ''playerName'') = Inr (Some d) \<Longrightarrow>
   post_players env st body = (Response 400 (Message ''Player already exists''), st)"
  by (simp add: post_players_def)

lemma post_players_uncaught:
  "missing_fields body = [] \<Longrightarrow>
   find_duplicate (players st) (js_get body ''uniquePlayerId'') (js_get body ''playerName'') = Inl e \<Longrightarrow>
   post_players env st body = (Uncaught e, st)"
  by (simp add: post_players_def)

lemma post_players_fresh:
  "missing_fields body = [] \<Longrightarrow>
   find_duplicate (players st) (js_get body ''uniquePlayerId'') (js_get body ''playerName'') = Inr None \<Longrightarrow>
   post_players env st body =
     (case add_player env st body of
        (Inl error, st') \<Rightarrow> (Response 500 (Failure ''Failed to add player'' error), st')
      | (Inr newPlayer, st') \<Rightarrow> (Response 201 (PlayerJson newPlayer), st'))"
  by (simp add: post_players_def)

lemma post_players_400:
  "fst (post_players env st body) = Response 400 b \<Longrightarrow> post_players env st body = (Response 400 b, st)"
  by (auto simp: post_players_def split: if_splits sum.splits option.splits prod.splits)

lemma exec_dataUrl_string: "exec_dataUrl (JStr s) = Inr (dataUrlMatch s)"
  by (simp add: exec_dataUrl_def)

lemma buffer_from_string:
  "buffer_from_base64 env (image_payload (JStr s)) =
     Inr (Base64Bytes (case dataUrlMatch s of None \<Rightarrow> s | Some (m, pl) \<Rightarrow> pl))"
  by (simp add: image_payload_def exec_dataUrl_string split: option.splits)

lemma add_player_ok:
  assumes "js_get body ''image'' = JStr img" and "slugify (js_get body ''playerName'') = Inr slug"
    and "mkdir_ok env" and "write_image_ok env" and "write_data_ok env"
  shows "add_player env st body =
     (Inr (new_player body (''/players/'' @ slug @ image_extension (JStr img))),
      st\<lparr>players := players st @ [new_player body (''/players/'' @ slug @ image_extension (JStr img))],
         disk := (disk st)\<lparr>dirs := dirs (disk st) \<union> {''public'', playersDir},
           files := (files (disk st))
             (playersDir @ ''/'' @ slug @ image_extension (JStr img) \<mapsto> Base64Bytes (case dataUrlMatch img of None \<Rightarrow> img | Some (m, pl) \<Rightarrow> pl),
              playersDataPath \<mapsto> JsonText (players st @ [new_player body (''/players/'' @ slug @ image_extension (JStr img))]))\<rparr>\<rparr>)"
  using assms
  by (simp add: add_player_def exec_dataUrl_string buffer_from_string Let_def)

lemma join_comma_contains: "f \<in> set ms \<Longrightarrow> \<exists>a b. join_comma ms = a @ f @ b"
proof (induction ms rule: join_comma.induct)
  case 1
  then show ?case by simp
next
  case (2 x)
  then have "join_comma [x] = [] @ f @ []" by simp
  then show ?case by blast
next
  case (3 x y ys)
  show ?case
  proof (cases "f = x")
    case True
    then have "join_comma (x # y # ys) = [] @ f @ ('', '' @ join_comma (y # ys))" by simp
    then show ?thesis by blast
  next
    case False
    with 3 obtain a b where "join_comma (y # ys) = a @ f @ b" by auto
    then have "join_comma (x # y # ys) = (x @ '', '' @ a) @ f @ b" by simp
    then show ?thesis by blast
  qed
qed

text \<open>
  C1 (as amended): the handler requires the eleven fields of \<open>requiredFields\<close>, whose sixth
  name is spelt \<^verbatim>\<open>battingSyle\<close>. The missing names are exactly the required names that are
  \<^verbatim>\<open>undefined\<close> in the body; the request is answered 400 with the message
  \<^verbatim>\<open>Missing required fields: ...\<close> if and only if at least one of them is missing; and that
  one message lists every missing name, separated by commas, with the store untouched.
\<close>

theorem missing_fields_collected:
  "set (missing_fields body) = {f \<in> set requiredFields. js_get body f = JUndefined}
   \<and> ((\<exists>m. fst (post_players env st body) = Response 400 (Message (''Missing required fields: '' @ m)))
        \<longleftrightarrow> (\<exists>f \<in> set requiredFields. js_get body f = JUndefined))
   \<and> (missing_fields body \<noteq> [] \<longrightarrow>
        post_players env st body =
          (Response 400 (Message (''Missing required fields: '' @ join_comma (missing_fields body))), st)
        \<and> (\<forall>f \<in> set (missing_fields body). \<exists>a b. join_comma (missing_fields body) = a @ f @ b))"
proof -
  have set_eq: "set (missing_fields body) = {f \<in> set requiredFields. js_get body f = JUndefined}"
    by (simp add: missing_fields_def)
  have nonempty: "missing_fields body \<noteq> [] \<longleftrightarrow> (\<exists>f \<in> set requiredFields. js_get body f = JUndefined)"
    by (simp add: missing_fields_def filter_empty_conv)
  have other: "missing_fields body = [] \<Longrightarrow>
      fst (post_players env st body) \<noteq> Response 400 (Message (''Missing required fields: '' @ m))" for m
    by (auto simp: post_players_def split: sum.splits option.splits prod.splits)
  have iff: "(\<exists>m. fst (post_players env st body) = Response 400 (Message (''Missing required fields: '' @ m)))
        \<longleftrightarrow> (\<exists>f \<in> set requiredFields. js_get body f = JUndefined)"
  proof (cases "missing_fields body = []")
    case True
    with other nonempty show ?thesis by blast
  next
    case False
    then have "fst (post_players env st body) =
        Response 400 (Message (''Missing required fields: '' @ join_comma (missing_fields body)))"
      by (simp add: post_players_missing)
    with False nonempty show ?thesis by blast
  qed
  from set_eq iff show ?thesis
    by (simp add: post_players_missing join_comma_contains)
qed

theorem missing_fields_collected_witness:
  "set (missing_fields no_role_age_body) = {''role'', ''age''}
   \<and> post_players io_ok sample_store no_role_age_body =
       (Response 400 (Message ''Missing required fields: role, age''), sample_store)"
proof -
  have m: "missing_fields no_role_age_body = [''role'', ''age'']" by code_simp
  from missing_fields_collected [of no_role_age_body io_ok sample_store] m
  show ?thesis by simp
qed

text \<open>
  C1 as stated names \<^verbatim>\<open>battingStyle\<close>. A body with all eleven fields of the spec is
  rejected for the missing \<^verbatim>\<open>battingSyle\<close>, and a body without \<^verbatim>\<open>battingStyle\<close> is
  accepted.
\<close>

theorem batting_style_counterexample:
  "filter (\<lambda>f. js_get styled_body f = JUndefined) spec_required_fields = []
   \<and> fst (post_players io_ok sample_store styled_body) =
       Response 400 (Message ''Missing required fields: battingSyle'')
   \<and> js_get dhoni_body ''battingStyle'' = JUndefined
   \<and> fst (post_players io_ok sample_store dhoni_body) =
       Response 201 (PlayerJson (new_player dhoni_body ''/players/ms-dhoni.png''))"
  by code_simp

lemma find_duplicate_error:
  "find_duplicate ps uid name = Inl e \<Longrightarrow> e = TypeError"
proof (induction ps)
  case Nil
  then show ?case by simp
next
  case (Cons p ps)
  have err: "js_toLowerCase v = Inl e' \<Longrightarrow> e' = TypeError" for v e'
    by (cases v) simp_all
  from Cons show ?case
    by (auto split: sum.splits if_splits dest: err)
qed

lemma find_duplicate_colliding:
  "list_ex (colliding body) ps \<Longrightarrow>
   find_duplicate ps (js_get body ''uniquePlayerId'') (js_get body ''playerName'') \<noteq> Inr None"
proof (induction ps)
  case Nil
  then show ?case by simp
next
  case (Cons p ps)
  show ?case
  proof (cases "colliding body p")
    case True
    then show ?thesis
      by (auto simp: colliding_def same_lower_def split: sum.splits)
  next
    case False
    with Cons show ?thesis
      by (auto split: sum.splits)
  qed
qed

lemma colliding_collides:
  "js_get body ''uniquePlayerId'' = JStr uid \<Longrightarrow> js_get body ''playerName'' = JStr name \<Longrightarrow>
   colliding body p = collides uid name p"
  by (auto simp: colliding_def same_lower_def collides_def split: sum.splits)

text \<open>
  C4 (as amended): a request whose id or name equals, after lowercasing, that of a stored
  player never changes the server state (the collection and the disk). It is answered 400
  \<^verbatim>\<open>Player already exists\<close> when it has every required field, its id and name are strings,
  and the stored players have string ids and names; in any case the answer is one of the
  two 400 messages or the lookup's TypeError.
\<close>

theorem colliding_attempt_rejected:
  assumes "list_ex (colliding body) (players st)"
  shows "snd (post_players env st body) = st
    \<and> (fst (post_players env st body) =
          Response 400 (Message (''Missing required fields: '' @ join_comma (missing_fields body)))
        \<or> fst (post_players env st body) = Response 400 (Message ''Player already exists'')
        \<or> fst (post_players env st body) = Uncaught TypeError)
    \<and> (missing_fields body = [] \<and> is_string (js_get body ''uniquePlayerId'')
          \<and> is_string (js_get body ''playerName'') \<and> list_all string_keyed (players st)
        \<longrightarrow> post_players env st body = (Response 400 (Message ''Player already exists''), st))"
proof -
  note found = find_duplicate_colliding [OF assms]
  have state: "snd (post_players env st body) = st"
    using found by (auto simp: post_players_def split: sum.splits option.splits)
  have answer: "fst (post_players env st body) =
          Response 400 (Message (''Missing required fields: '' @ join_comma (missing_fields body)))
        \<or> fst (post_players env st body) = Response 400 (Message ''Player already exists'')
        \<or> fst (post_players env st body) = Uncaught TypeError"
    using found
    by (auto simp: post_players_def split: sum.splits option.splits dest: find_duplicate_error)
  have conflict: "post_players env st body = (Response 400 (Message ''Player already exists''), st)"
    if m: "missing_fields body = []" and i: "is_string (js_get body ''uniquePlayerId'')"
      and n: "is_string (js_get body ''playerName'')" and s: "list_all string_keyed (players st)"
  proof -
    from i n obtain uid name where
      b: "js_get body ''uniquePlayerId'' = JStr uid" "js_get body ''playerName'' = JStr name"
      by (auto simp: is_string_iff)
    from assms have "list_ex (collides uid name) (players st)"
      by (simp add: list_ex_iff colliding_collides [OF b])
    then have "find (collides uid name) (players st) \<noteq> None"
      by (auto simp: find_None_iff list_ex_iff)
    then obtain d where "find (collides uid name) (players st) = Some d" by blast
    with b s have
      "find_duplicate (players st) (js_get body ''uniquePlayerId'') (js_get body ''playerName'')
        = Inr (Some d)"
      by (simp add: find_duplicate_find)
    with m show ?thesis by (rule post_players_duplicate)
  qed
  from state answer conflict show ?thesis by blast
qed

theorem colliding_attempt_rejected_witness:
  "list_ex (colliding kohli_again_body) (players sample_store)
   \<and> post_players io_ok sample_store kohli_again_body =
       (Response 400 (Message ''Player already exists''), sample_store)
   \<and> snd (post_players io_ok two_player_store numeric_name_body) = two_player_store"
proof -
  have 1: "missing_fields kohli_again_body = []" by code_simp
  have 2: "is_string (js_get kohli_again_body ''uniquePlayerId'')" by code_simp
  have 3: "is_string (js_get kohli_again_body ''playerName'')" by code_simp
  have 4: "list_all string_keyed (players sample_store)" by code_simp
  have 5: "list_ex (colliding kohli_again_body) (players sample_store)" by code_simp
  have 6: "list_ex (colliding numeric_name_body) (players two_player_store)" by code_simp
  note t = colliding_attempt_rejected [OF 5, of io_ok]
  from 1 2 3 4 have "missing_fields kohli_again_body = []
      \<and> is_string (js_get kohli_again_body ''uniquePlayerId'')
      \<and> is_string (js_get kohli_again_body ''playerName'')
      \<and> list_all string_keyed (players sample_store)"
    by (intro conjI)
  then have a: "post_players io_ok sample_store kohli_again_body =
       (Response 400 (Message ''Player already exists''), sample_store)"
    by (rule mp [OF t [THEN conjunct2, THEN conjunct2]])
  have b: "snd (post_players io_ok two_player_store numeric_name_body) = two_player_store"
    by (rule colliding_attempt_rejected [OF 6, of io_ok, THEN conjunct1])
  from 5 a b show ?thesis by (intro conjI)
qed

text \<open>
  C4 as stated fails: the id of this request is that of the second stored player, and its
  name is the number 7. The lookup compares names at the first stored player and throws,
  so the answer is not \<^verbatim>\<open>Player already exists\<close>.
\<close>

theorem numeric_name_counterexample:
  "missing_fields numeric_name_body = []
   \<and> js_get numeric_name_body ''uniquePlayerId'' = JStr ''mi-45''
   \<and> js_get numeric_name_body ''playerName'' = JNum ''7''
   \<and> map (\<lambda>p. js_get p ''uniquePlayerId'') (players two_player_store)
       = [JStr ''RCB-18'', JStr ''MI-45'']
   \<and> fst (post_players io_ok two_player_store numeric_name_body) = Uncaught TypeError
   \<and> players (snd (post_players io_ok two_player_store numeric_name_body)) = [kohli, rohit]"
  by code_simp

text \<open>
  C10: a request answered 400 was rejected for missing fields or for a duplicate, and it
  leaves the whole state as it was: no directory is made, no file is written, and the
  collection is the same.
\<close>

theorem rejected_request_no_effect:
  assumes "fst (post_players env st body) = Response 400 b"
  shows "snd (post_players env st body) = st
         \<and> disk (snd (post_players env st body)) = disk st
         \<and> (missing_fields body \<noteq> []
            \<or> (\<exists>d. find_duplicate (players st) (js_get body ''uniquePlayerId'')
                      (js_get body ''playerName'') = Inr (Some d)))"
proof -
  from assms have "post_players env st body = (Response 400 b, st)"
    by (rule post_players_400)
  moreover from assms have "missing_fields body \<noteq> []
            \<or> (\<exists>d. find_duplicate (players st) (js_get body ''uniquePlayerId'')
                      (js_get body ''playerName'') = Inr (Some d))"
    by (auto simp: post_players_def split: if_splits sum.splits option.splits prod.splits)
  ultimately show ?thesis by simp
qed

theorem rejected_request_no_effect_witness:
  "fst (post_players io_ok sample_store kohli_again_body) = Response 400 (Message ''Player already exists'')
   \<and> fst (post_players io_ok sample_store no_role_age_body) = Response 400 (Message ''Missing required fields: role, age'')
   \<and> disk (snd (post_players io_ok sample_store kohli_again_body)) = disk sample_store
   \<and> disk (snd (post_players io_ok sample_store no_role_age_body)) = disk sample_store"
proof -
  have 1: "fst (post_players io_ok sample_store kohli_again_body) = Response 400 (Message ''Player already exists'')"
    by code_simp
  have 2: "fst (post_players io_ok sample_store no_role_age_body) = Response 400 (Message ''Missing required fields: role, age'')"
    by code_simp
  from 1 2 rejected_request_no_effect [OF 1] rejected_request_no_effect [OF 2]
  show ?thesis by simp
qed

subsection \<open>Creation: appending and persisting\<close>

lemma add_player_data_write_fails:
  assumes "js_get body ''image'' = JStr img" and "slugify (js_get body ''playerName'') = Inr slug"
    and "mkdir_ok env" and "write_image_ok env" and "\<not> write_data_ok env"
  shows "fst (add_player env st body) = Inl (IOError WriteData)
    \<and> players (snd (add_player env st body)) =
        players st @ [new_player body (''/players/'' @ slug @ image_extension (JStr img))]
    \<and> files (disk (snd (add_player env st body))) playersDataPath = files (disk st) playersDataPath"
  using assms
  by (simp add: add_player_def exec_dataUrl_string buffer_from_string Let_def playersDir_def
      playersDataPath_def)

lemma slugify_string: "\<exists>slug. slugify (JStr name) = Inr slug"
  by (simp add: slugify_def Let_def)

text \<open>
  C9: when the request passes both checks, the image is written, and only the rewrite of
  the backing file is rejected, the answer is 500 \<^verbatim>\<open>Failed to add player\<close> with that
  I/O error, the collection nevertheless ends with the new record, which GET /players/all
  then shows, and the backing file is as it was before.
\<close>

theorem persist_failure_keeps_append:
  assumes "missing_fields body = []"
    and "find_duplicate (players st) (js_get body ''uniquePlayerId'')
           (js_get body ''playerName'') = Inr None"
    and "js_get body ''image'' = JStr img"
    and "js_get body ''playerName'' = JStr name"
    and "mkdir_ok env" and "write_image_ok env" and "\<not> write_data_ok env"
  shows "\<exists>p. fst (post_players env st body) =
             Response 500 (Failure ''Failed to add player'' (IOError WriteData))
    \<and> players (snd (post_players env st body)) = players st @ [p]
    \<and> get_players_all (snd (post_players env st body)) = Response 200 (Players (players st @ [p]))
    \<and> js_get p ''uniquePlayerId'' = js_get body ''uniquePlayerId''
    \<and> files (disk (snd (post_players env st body))) playersDataPath
        = files (disk st) playersDataPath"
proof -
  obtain slug where slug: "slugify (js_get body ''playerName'') = Inr slug"
    using slugify_string [of name] assms(4) by auto
  note a = add_player_data_write_fails [OF assms(3) slug assms(5,6,7), of st]
  have p: "post_players env st body =
      (Response 500 (Failure ''Failed to add player'' (IOError WriteData)),
       snd (add_player env st body))"
  proof -
    obtain r st' where ap: "add_player env st body = (r, st')"
      by (cases "add_player env st body")
    with a have "r = Inl (IOError WriteData)" by simp
    with ap show ?thesis by (simp add: post_players_fresh [OF assms(1,2)])
  qed
  have "js_get (new_player body (''/players/'' @ slug @ image_extension (JStr img))) ''uniquePlayerId''
      = js_get body ''uniquePlayerId''"
    by (simp add: new_player_def js_get_def)
  with p a show ?thesis
    by (simp add: get_players_all_def)
qed

theorem persist_failure_keeps_append_witness:
  "fst (post_players data_write_fails sample_store dhoni_body) =
      Response 500 (Failure ''Failed to add player'' (IOError WriteData))
   \<and> length (players (snd (post_players data_write_fails sample_store dhoni_body))) = 2
   \<and> get_player_by_id (snd (post_players data_write_fails sample_store dhoni_body)) ''csk-07''
      = Response 200 (PlayerJson (new_player dhoni_body ''/players/ms-dhoni.png''))"
proof -
  have 1: "missing_fields dhoni_body = []" by code_simp
  have 2: "find_duplicate (players sample_store) (js_get dhoni_body ''uniquePlayerId'')
           (js_get dhoni_body ''playerName'') = Inr None" by code_simp
  have 3: "js_get dhoni_body ''image'' = JStr ''iVBORw0KGgo=''" by code_simp
  have 4: "js_get dhoni_body ''playerName'' = JStr ''MS Dhoni''" by code_simp
  have 5: "mkdir_ok data_write_fails" "write_image_ok data_write_fails"
    "\<not> write_data_ok data_write_fails" by (simp_all add: data_write_fails_def)
  from persist_failure_keeps_append [OF 1 2 3 4 5, of ] obtain p where
    p: "fst (post_players data_write_fails sample_store dhoni_body) =
             Response 500 (Failure ''Failed to add player'' (IOError WriteData))"
      "players (snd (post_players data_write_fails sample_store dhoni_body)) = players sample_store @ [p]"
    by blast
  have "get_player_by_id (snd (post_players data_write_fails sample_store dhoni_body)) ''csk-07''
      = Response 200 (PlayerJson (new_player dhoni_body ''/players/ms-dhoni.png''))"
    by code_simp
  with p show ?thesis by (simp add: sample_store_def)
qed

lemma find_by_id_append:
  assumes "list_all string_keyed ps" and "\<not> list_ex (collides uid name) ps"
    and "js_get p ''uniquePlayerId'' = JStr uid"
  shows "find_by_id (ps @ [p]) uid = Inr (Some p)"
  using assms(1,2)
proof (induction ps)
  case Nil
  with assms(3) show ?case by simp
next
  case (Cons q ps)
  from Cons.prems obtain i where "js_get q ''uniquePlayerId'' = JStr i"
    by (auto simp: string_keyed_def is_string_iff)
  with Cons show ?case by (auto simp: collides_def)
qed

lemma new_player_fields:
  "js_get (new_player body path) f =
     (if f = ''image'' then JStr path
      else if f \<in> set requiredFields then js_get body f else JUndefined)"
  by (simp add: new_player_def js_get_def requiredFields_def)

text \<open>
  C5 (as amended): a request with the eleven fields that the handler requires (with
  \<^verbatim>\<open>battingSyle\<close>, spelt so), a string id, name and image, whose id and name collide with
  no stored player, over stored players with string ids and names and on a working disk,
  is answered 201 with a record \<open>p\<close>; GET /players/:id with that id then answers with the
  same \<open>p\<close>; on each required field but \<^verbatim>\<open>image\<close> the record holds what the body holds,
  it has no other field, and its \<^verbatim>\<open>image\<close> is the path \<^verbatim>\<open>/players/<slug><extension>\<close>.
\<close>

theorem create_then_byId:
  assumes "missing_fields body = []"
    and "js_get body ''uniquePlayerId'' = JStr uid"
    and "js_get body ''playerName'' = JStr name"
    and "js_get body ''image'' = JStr img"
    and "list_all string_keyed (players st)"
    and "\<not> list_ex (collides uid name) (players st)"
    and "mkdir_ok env" and "write_image_ok env" and "write_data_ok env"
  shows "\<exists>p slug. fst (post_players env st body) = Response 201 (PlayerJson p)
    \<and> get_player_by_id (snd (post_players env st body)) uid = Response 200 (PlayerJson p)
    \<and> (\<forall>f. f \<noteq> ''image'' \<longrightarrow>
          js_get p f = (if f \<in> set requiredFields then js_get body f else JUndefined))
    \<and> slugify (JStr name) = Inr slug
    \<and> js_get p ''image'' = JStr (''/players/'' @ slug @ image_extension (JStr img))"
proof -
  obtain slug where slug: "slugify (JStr name) = Inr slug"
    using slugify_string by blast
  define p where "p = new_player body (''/players/'' @ slug @ image_extension (JStr img))"
  from assms(6) have "find (collides uid name) (players st) = None"
    by (auto simp: find_None_iff list_ex_iff)
  with assms(2,3,5) have fresh:
    "find_duplicate (players st) (js_get body ''uniquePlayerId'') (js_get body ''playerName'') = Inr None"
    by (simp add: find_duplicate_find)
  from slug assms(3) have slug': "slugify (js_get body ''playerName'') = Inr slug" by simp
  have post: "fst (post_players env st body) = Response 201 (PlayerJson p)"
    "players (snd (post_players env st body)) = players st @ [p]"
    by (simp_all add: post_players_fresh [OF assms(1) fresh]
        add_player_ok [OF assms(4) slug' assms(7,8,9)] p_def)
  have "js_get p ''uniquePlayerId'' = JStr uid"
    using assms(2) by (simp add: p_def new_player_fields requiredFields_def)
  with assms(5,6) have "find_by_id (players st @ [p]) uid = Inr (Some p)"
    by (rule find_by_id_append)
  with post(2) have get: "get_player_by_id (snd (post_players env st body)) uid = Response 200 (PlayerJson p)"
    by (simp add: get_player_by_id_def)
  have fields: "\<forall>f. f \<noteq> ''image'' \<longrightarrow>
          js_get p f = (if f \<in> set requiredFields then js_get body f else JUndefined)"
    by (simp add: p_def new_player_fields)
  have "js_get p ''image'' = JStr (''/players/'' @ slug @ image_extension (JStr img))"
    by (simp add: p_def new_player_fields)
  with post(1) get fields slug show ?thesis by blast
qed

theorem create_then_byId_witness:
  "fst (post_players io_ok sample_store dhoni_body) =
      Response 201 (PlayerJson (new_player dhoni_body ''/players/ms-dhoni.png''))
   \<and> get_player_by_id (snd (post_players io_ok sample_store dhoni_body)) ''CSK-07'' =
      Response 200 (PlayerJson (new_player dhoni_body ''/players/ms-dhoni.png''))
   \<and> (\<exists>p. get_player_by_id (snd (post_players io_ok sample_store dhoni_body)) ''CSK-07'' =
          Response 200 (PlayerJson p)
        \<and> js_get p ''teamName'' = js_get dhoni_body ''teamName'')"
proof -
  have 1: "missing_fields dhoni_body = []" by code_simp
  have 2: "js_get dhoni_body ''uniquePlayerId'' = JStr ''CSK-07''" by code_simp
  have 3: "js_get dhoni_body ''playerName'' = JStr ''MS Dhoni''" by code_simp
  have 4: "js_get dhoni_body ''image'' = JStr ''iVBORw0KGgo=''" by code_simp
  have 5: "list_all string_keyed (players sample_store)" by code_simp
  have 6: "\<not> list_ex (collides ''CSK-07'' ''MS Dhoni'') (players sample_store)" by code_simp
  have 7: "mkdir_ok io_ok" "write_image_ok io_ok" "write_data_ok io_ok"
    by (simp_all add: io_ok_def)
  have a: "fst (post_players io_ok sample_store dhoni_body) =
      Response 201 (PlayerJson (new_player dhoni_body ''/players/ms-dhoni.png''))"
    by code_simp
  from create_then_byId [OF 1 2 3 4 5 6 7] obtain p where
    p: "fst (post_players io_ok sample_store dhoni_body) = Response 201 (PlayerJson p)"
       "get_player_by_id (snd (post_players io_ok sample_store dhoni_body)) ''CSK-07'' =
          Response 200 (PlayerJson p)"
       "\<forall>f. f \<noteq> ''image'' \<longrightarrow>
          js_get p f = (if f \<in> set requiredFields then js_get dhoni_body f else JUndefined)"
    by blast
  from p(3) have "js_get p ''teamName'' = js_get dhoni_body ''teamName''"
    by (simp add: requiredFields_def)
  with a p(1,2) show ?thesis by auto
qed

text \<open>
  C5 as stated fails on the fields of the spec's data model. A body with the spec's eleven
  fields (\<^verbatim>\<open>battingStyle\<close>) is answered 400 and a lookup of its id then finds nothing; a
  body with both spellings is created, and the record that comes back has no
  \<^verbatim>\<open>battingStyle\<close>.
\<close>

theorem spec_fields_counterexample:
  "filter (\<lambda>f. js_get styled_body f = JUndefined) spec_required_fields = []
   \<and> fst (post_players io_ok sample_store styled_body) =
       Response 400 (Message ''Missing required fields: battingSyle'')
   \<and> get_player_by_id (snd (post_players io_ok sample_store styled_body)) ''CSK-07'' =
       Response 404 (Message ''Player with id CSK-07 not found'')
   \<and> js_get both_styles_body ''battingStyle'' = JStr ''Right Handed''
   \<and> get_player_by_id (snd (post_players io_ok sample_store both_styles_body)) ''CSK-07'' =
       Response 200 (PlayerJson (new_player both_styles_body ''/players/ms-dhoni.png''))
   \<and> js_get (new_player both_styles_body ''/players/ms-dhoni.png'') ''battingStyle'' = JUndefined"
  by code_simp

subsection \<open>Creation: the image step\<close>







text \<open>
  An image that is an array is read by the pattern as the string of the array and, when
  that is no data URL, handed to \<^verbatim>\<open>Buffer.from\<close> as it is, which takes an array. An image
  that is an object is stored or refused as \<^verbatim>\<open>Buffer.from\<close> decides.
\<close>

lemma compound_image_examples:
  "fst (post_players io_ok sample_store array_image_body) =
     Response 201 (PlayerJson (new_player array_image_body ''/players/ms-dhoni.png''))"
  "files (disk (snd (post_players io_ok sample_store array_image_body)))
     ''public/players/ms-dhoni.png'' = Some (ArrayBytes [JStr ''iVBORw0KGgo=''])"
  "fst (post_players io_ok sample_store array_url_body) =
     Response 201 (PlayerJson (new_player array_url_body ''/players/ms-dhoni.svg''))"
  "files (disk (snd (post_players io_ok sample_store array_url_body)))
     ''public/players/ms-dhoni.svg'' = Some (Base64Bytes ''PHN2Zy8+'')"
  "js_to_string (JArr [JStr ''a'', JNull, JArr [JNum ''1'', JBool True], JObj []])
     = Inr ''a,,1,true,[object Object]''"
  "js_to_string (JArr [JObj [(''toString'', JNull)]]) = Inl TypeError"
  "fst (post_players io_ok sample_store object_image_body) =
     Response 500 (Failure ''Failed to add player'' TypeError)"
  "fst (post_players accepts_objects sample_store object_image_body) =
     Response 201 (PlayerJson (new_player object_image_body ''/players/ms-dhoni.png''))"
  by code_simp+



lemma missing_fields_Nil:
  "missing_fields body = [] \<Longrightarrow> f \<in> set requiredFields \<Longrightarrow> js_get body f \<noteq> JUndefined"
  by (auto simp: missing_fields_def filter_empty_conv)


subsection \<open>The extension of the stored image\<close>

lemma dataUrlMatch_form:
  assumes "dataUrlMatch s = Some (mime, payload)"
  shows "data_url_form s mime payload"
proof -
  define r where "r = drop 11 s"
  define rest where "rest = dropWhile mime_char r"
  from assms have pre: "take 11 s = ''data:image/''"
    and sub: "takeWhile mime_char r \<noteq> []"
    and sep: "take 8 rest = '';base64,''"
    and pl: "drop 8 rest \<noteq> []" "\<not> list_ex line_terminator (drop 8 rest)"
    and res: "mime = ''image/'' @ takeWhile mime_char r" "payload = drop 8 rest"
    by (auto simp: dataUrlMatch_def Let_def r_def rest_def split: if_splits)
  have "s = take 11 s @ r" by (simp add: r_def)
  also have "r = takeWhile mime_char r @ rest" by (simp add: rest_def)
  also have "rest = take 8 rest @ drop 8 rest" by simp
  finally have "s = ''data:image/'' @ takeWhile mime_char r @ '';base64,'' @ payload"
    using pre sep res(2) by simp
  moreover have "list_all mime_char (takeWhile mime_char r)"
    by (auto simp: list_all_iff dest: set_takeWhileD)
  ultimately show ?thesis
    using sub pl res by (simp add: data_url_form_def)
qed

lemma form_dataUrlMatch:
  assumes "data_url_form s mime payload"
  shows "dataUrlMatch s = Some (mime, payload)"
proof -
  define sub where "sub = drop 6 mime"
  from assms have t: "take 6 mime = ''image/''"
    and sub: "sub \<noteq> []" "list_all mime_char sub"
    and pl: "payload \<noteq> []" "\<not> list_ex line_terminator payload"
    and s: "s = ''data:'' @ mime @ '';base64,'' @ payload"
    unfolding data_url_form_def sub_def by blast+
  have "mime = take 6 mime @ sub" unfolding sub_def by simp
  with t have mime: "mime = ''image/'' @ sub" by simp
  have s': "s = ''data:image/'' @ sub @ '';base64,'' @ payload"
    unfolding s by (subst mime) simp
  have semi: "\<not> mime_char CHR '';''" by (simp add: mime_char_def)
  from sub(2) have all: "\<And>c. c \<in> set sub \<Longrightarrow> mime_char c" by (simp add: list_all_iff)
  have d: "drop 11 s = sub @ '';base64,'' @ payload" unfolding s' by simp
  have tw: "takeWhile mime_char (drop 11 s) = sub"
    unfolding d using all semi by (simp add: takeWhile_append2)
  have dw: "dropWhile mime_char (drop 11 s) = '';base64,'' @ payload"
    unfolding d using all semi by (simp add: dropWhile_append2)
  have pre: "take 11 s = ''data:image/''" unfolding s' by simp
  have "dataUrlMatch s = Some (''image/'' @ sub, payload)"
    unfolding dataUrlMatch_def Let_def tw dw using pre sub(1) pl by simp
  then show ?thesis by (simp only: mime [symmetric])
qed

lemma dataUrlMatch_iff: "dataUrlMatch s = Some (mime, payload) \<longleftrightarrow> data_url_form s mime payload"
  using dataUrlMatch_form form_dataUrlMatch by blast
















subsection \<open>Grouping by team\<close>

lemma first_seen_snoc:
  "first_seen (xs @ [k]) = (if k \<in> set xs then first_seen xs else first_seen xs @ [k])"
  by (induction xs) auto

lemma set_first_seen: "set (first_seen xs) = set xs"
  by (induction xs) auto

lemma distinct_first_seen: "distinct (first_seen xs)"
  by (induction xs) (auto simp: set_first_seen)

lemma add_member_map:
  "distinct ts \<Longrightarrow> k \<in> set ts \<Longrightarrow>
   add_member k p (map (\<lambda>t. (t, f t)) ts) =
     map (\<lambda>t. (t, if t = k then f t @ [p] else f t)) ts"
proof (induction ts)
  case Nil
  then show ?case by simp
next
  case (Cons t ts)
  show ?case
  proof (cases "t = k")
    case True
    with Cons.prems have "k \<notin> set ts" by simp
    then have "map (\<lambda>t. (t, if t = k then f t @ [p] else f t)) ts = map (\<lambda>t. (t, f t)) ts"
      by (intro map_cong) auto
    with True show ?thesis by simp
  next
    case False
    with Cons show ?thesis by simp
  qed
qed

lemma keys_grouped_spec: "fst ` set (grouped_spec xs) = team_key ` set xs"
  by (auto simp: grouped_spec_def set_first_seen image_image)

lemma grouped_spec_snoc_old:
  assumes "team_key p \<in> team_key ` set xs"
  shows "add_member (team_key p) p (grouped_spec xs) = grouped_spec (xs @ [p])"
proof -
  let ?ts = "first_seen (map team_key xs)"
  from assms have k: "team_key p \<in> set ?ts" by (simp add: set_first_seen)
  have "add_member (team_key p) p (grouped_spec xs) =
      map (\<lambda>t. (t, if t = team_key p then filter (\<lambda>q. team_key q = t) xs @ [p]
                    else filter (\<lambda>q. team_key q = t) xs)) ?ts"
    unfolding grouped_spec_def
    by (rule add_member_map [OF distinct_first_seen k])
  also have "\<dots> = map (\<lambda>t. (t, filter (\<lambda>q. team_key q = t) (xs @ [p]))) ?ts"
    by (intro map_cong) auto
  also have "\<dots> = grouped_spec (xs @ [p])"
    using assms by (simp add: grouped_spec_def first_seen_snoc)
  finally show ?thesis .
qed

lemma grouped_spec_snoc_new:
  assumes "team_key p \<notin> team_key ` set xs"
  shows "grouped_spec xs @ [(team_key p, [p])] = grouped_spec (xs @ [p])"
proof -
  let ?ts = "first_seen (map team_key xs)"
  have old: "map (\<lambda>t. (t, filter (\<lambda>q. team_key q = t) (xs @ [p]))) ?ts
      = map (\<lambda>t. (t, filter (\<lambda>q. team_key q = t) xs)) ?ts"
    using assms by (intro map_cong) (auto simp: set_first_seen)
  from assms have none: "filter (\<lambda>q. team_key q = team_key p) xs = []"
    by (force simp: filter_empty_conv image_iff)
  have "grouped_spec (xs @ [p]) =
      map (\<lambda>t. (t, filter (\<lambda>q. team_key q = t) (xs @ [p]))) (?ts @ [team_key p])"
    using assms by (simp add: grouped_spec_def first_seen_snoc)
  also have "\<dots> = grouped_spec xs @ [(team_key p, [p])]"
    using old none by (simp add: grouped_spec_def)
  finally show ?thesis by simp
qed

lemma group_step_spec:
  assumes "to_property_key (js_get p ''teamName'') = Inr (team_key p)"
    and "team_key p \<notin> set object_prototype_keys"
  shows "group_step (grouped_spec xs) p = Inr (grouped_spec (xs @ [p]))"
proof (cases "team_key p \<in> team_key ` set xs")
  case True
  then show ?thesis
    using grouped_spec_snoc_old [OF True] assms(1)
    by (simp add: group_step_def keys_grouped_spec)
next
  case False
  then show ?thesis
    using grouped_spec_snoc_new [OF False] assms
    by (simp add: group_step_def keys_grouped_spec)
qed

lemma group_reduce_spec:
  "\<forall>p\<in>set ps. to_property_key (js_get p ''teamName'') = Inr (team_key p)
      \<and> team_key p \<notin> set object_prototype_keys \<Longrightarrow>
   group_reduce (grouped_spec xs) ps = Inr (grouped_spec (xs @ ps))"
proof (induction ps arbitrary: xs)
  case Nil
  show ?case by simp
next
  case (Cons p ps)
  from Cons.prems have "group_step (grouped_spec xs) p = Inr (grouped_spec (xs @ [p]))"
    by (simp add: group_step_spec)
  moreover from Cons have "group_reduce (grouped_spec (xs @ [p])) ps = Inr (grouped_spec ((xs @ [p]) @ ps))"
    by simp
  ultimately show ?case by simp
qed

lemma object_entries_plain:
  assumes "\<forall>e\<in>set acc. \<not> is_array_index (fst e)"
  shows "object_entries acc = acc"
proof -
  from assms have "filter (\<lambda>e. is_array_index (fst e)) acc = []"
    by (simp add: filter_empty_conv)
  moreover from assms have "filter (\<lambda>e. \<not> is_array_index (fst e)) acc = acc"
    by (simp add: filter_id_conv)
  ultimately show ?thesis by (simp add: object_entries_def)
qed

text \<open>
  A team name that is not a string is the key that its string makes: the number 7 joins
  the team \<^verbatim>\<open>7\<close>. A team named like an inherited property makes the handler throw.
\<close>

lemma grouped_examples:
  "get_players_grouped mixed_team_store =
     Response 200 (Groups
       ((''7'', (team_value_player ''A'' (JStr ''7'')) #
                (team_value_player ''B'' (JNum ''7'')) # []) #
        ('',x'', (team_value_player ''C'' (JArr (JNull # JStr ''x'' # []))) # []) # []))"
  "get_players_grouped constructor_team_store = Uncaught TypeError"
  by code_simp+

text \<open>
  C8 (as amended): when the team names are strings, none of them an array index (a
  canonical decimal below 2^32 - 1) or a property name inherited from \<^verbatim>\<open>Object.prototype\<close>,
  the answer lists the team names in the order of their first occurrence, each with the
  players whose team name is exactly that string, in collection order. (The theorem also
  covers a team name that is not a string, by the key that its string makes.)
\<close>

theorem grouped_first_seen:
  assumes "list_all plain_team (players st)"
  shows "get_players_grouped st = Response 200 (Groups (grouped_spec (players st)))"
proof -
  from assms have proto: "\<forall>p\<in>set (players st).
      to_property_key (js_get p ''teamName'') = Inr (team_key p)
      \<and> team_key p \<notin> set object_prototype_keys"
    and index: "\<forall>p\<in>set (players st). \<not> is_array_index (team_key p)"
    by (simp_all add: list_all_iff plain_team_def plain_key_def)
  have "grouped_spec [] = []" by (simp add: grouped_spec_def)
  with group_reduce_spec [OF proto, of "[]"]
  have reduce: "group_reduce [] (players st) = Inr (grouped_spec (players st))" by simp
  have "\<forall>e\<in>set (grouped_spec (players st)). \<not> is_array_index (fst e)"
  proof
    fix e
    assume "e \<in> set (grouped_spec (players st))"
    then have "fst e \<in> fst ` set (grouped_spec (players st))" by (rule imageI)
    then have "fst e \<in> team_key ` set (players st)" by (simp only: keys_grouped_spec)
    with index show "\<not> is_array_index (fst e)" by auto
  qed
  then have "object_entries (grouped_spec (players st)) = grouped_spec (players st)"
    by (rule object_entries_plain)
  with reduce show ?thesis by (simp add: get_players_grouped_def)
qed

theorem grouped_first_seen_witness:
  "get_players_grouped two_case_store =
     Response 200 (Groups [(''csk'', [team_player ''A'' ''csk'', team_player ''C'' ''csk'']),
                           (''CSK'', [team_player ''B'' ''CSK''])])"
proof -
  have 1: "list_all plain_team (players two_case_store)" by code_simp
  have 2: "grouped_spec (players two_case_store) =
      [(''csk'', [team_player ''A'' ''csk'', team_player ''C'' ''csk'']),
       (''CSK'', [team_player ''B'' ''CSK''])]" by code_simp
  from grouped_first_seen [OF 1] 2 show ?thesis by simp
qed

text \<open>
  C8 as stated fails on a team name that is an array index: the team \<^verbatim>\<open>11\<close> is seen
  second and listed first.
\<close>

theorem numbered_team_counterexample:
  "map team_key (players numbered_team_store) = [''Blues'', ''11'', ''Blues'']
   \<and> first_seen (map team_key (players numbered_team_store)) = [''Blues'', ''11'']
   \<and> get_players_grouped numbered_team_store =
       Response 200 (Groups [(''11'', [team_player ''B'' ''11'']),
                             (''Blues'', [team_player ''A'' ''Blues'', team_player ''C'' ''Blues''])])"
  by code_simp

subsection \<open>The team query\<close>

lemma filter_team_filter:
  "list_all string_team ps \<Longrightarrow> filter_team ps normalized = Inr (filter (on_team normalized) ps)"
proof (induction ps)
  case Nil
  show ?case by simp
next
  case (Cons p ps)
  from Cons.prems obtain t where "js_get p ''teamName'' = JStr t"
    by (auto simp: string_team_def is_string_iff)
  with Cons show ?case by (simp add: on_team_def)
qed

lemma js_trim_blank:
  assumes "list_all js_space t"
  shows "js_trim t = []"
proof -
  from assms have "\<forall>c\<in>set t. js_space c" by (simp only: list_all_iff)
  then have d: "dropWhile js_space t = []" by (simp only: dropWhile_eq_Nil_conv)
  show ?thesis unfolding js_trim_def d by simp
qed

lemma filter_team_error:
  "\<not> list_all string_team ps \<Longrightarrow> filter_team ps normalized = Inl TypeError"
proof (induction ps)
  case Nil
  then show ?case by simp
next
  case (Cons p ps)
  show ?case
  proof (cases "string_team p")
    case True
    then obtain t where "js_get p ''teamName'' = JStr t"
      by (auto simp: string_team_def is_string_iff)
    with True Cons show ?thesis by simp
  next
    case False
    then have "js_toLowerCase (js_get p ''teamName'') = Inl TypeError"
      by (cases "js_get p ''teamName''") (simp_all add: string_team_def is_string_def)
    then show ?thesis by simp
  qed
qed

text \<open>
  C3 (as amended): the query is answered 400 when the parameter is absent, is not a string,
  or is the empty string. Any other string, one of white space only included, is trimmed
  and lowercased. When every stored team name is a string and none of them, lowercased, is
  that string, the answer is 404 and its message ends with the team name as it was given;
  a string of white space only is compared as the empty name. When some stored team name
  is not a string, the comparison throws for every such query.
\<close>

theorem by_team_errors:
  "(q = QAbsent \<or> q = QOther \<or> q = QString [] \<longrightarrow>
      get_players_by_team st q = Response 400 (Message ''teamName query parameter is required''))
   \<and> (t \<noteq> [] \<and> list_all string_team (players st)
        \<and> \<not> list_ex (on_team (toLowerCase (js_trim t))) (players st) \<longrightarrow>
      get_players_by_team st (QString t) =
        Response 404 (Message (''No players found for team '' @ t)))
   \<and> (t \<noteq> [] \<and> list_all js_space t \<and> list_all string_team (players st)
        \<and> \<not> list_ex (on_team []) (players st) \<longrightarrow>
      get_players_by_team st (QString t) =
        Response 404 (Message (''No players found for team '' @ t)))
   \<and> (t \<noteq> [] \<and> list_all string_team (players st)
        \<and> list_ex (on_team (toLowerCase (js_trim t))) (players st) \<longrightarrow>
      (\<exists>name roster. get_players_by_team st (QString t) = Response 200 (Roster name roster)))
   \<and> (t \<noteq> [] \<and> \<not> list_all string_team (players st) \<longrightarrow>
      get_players_by_team st (QString t) = Uncaught TypeError)"
proof -
  have bad: "get_players_by_team st q = Response 400 (Message ''teamName query parameter is required'')"
    if "q = QAbsent \<or> q = QOther \<or> q = QString []"
    using that by (auto simp: get_players_by_team_def)
  have none: "get_players_by_team st (QString t) =
        Response 404 (Message (''No players found for team '' @ t))"
    if "t \<noteq> []" and "list_all string_team (players st)"
      and "\<not> list_ex (on_team (toLowerCase (js_trim t))) (players st)"
  proof -
    from that(3) have "filter (on_team (toLowerCase (js_trim t))) (players st) = []"
      by (simp add: filter_empty_conv list_ex_iff)
    with that(2) have "filter_team (players st) (toLowerCase (js_trim t)) = Inr []"
      by (simp add: filter_team_filter)
    with that(1) show ?thesis by (simp add: get_players_by_team_def)
  qed
  have blank: "get_players_by_team st (QString t) =
        Response 404 (Message (''No players found for team '' @ t))"
    if "t \<noteq> []" and "list_all js_space t" and "list_all string_team (players st)"
      and "\<not> list_ex (on_team []) (players st)"
  proof -
    from that(2) have "toLowerCase (js_trim t) = []"
      by (simp add: js_trim_blank toLowerCase_def)
    with that none show ?thesis by simp
  qed
  have some: "\<exists>name roster. get_players_by_team st (QString t) = Response 200 (Roster name roster)"
    if "t \<noteq> []" and "list_all string_team (players st)"
      and "list_ex (on_team (toLowerCase (js_trim t))) (players st)"
  proof -
    from that(3) have "filter (on_team (toLowerCase (js_trim t))) (players st) \<noteq> []"
      by (simp add: filter_empty_conv list_ex_iff)
    then obtain first others where
      "filter (on_team (toLowerCase (js_trim t))) (players st) = first # others"
      by (cases "filter (on_team (toLowerCase (js_trim t))) (players st)") auto
    with that(2) have "filter_team (players st) (toLowerCase (js_trim t)) = Inr (first # others)"
      by (simp add: filter_team_filter)
    with that(1) show ?thesis by (simp add: get_players_by_team_def)
  qed
  have throws: "get_players_by_team st (QString t) = Uncaught TypeError"
    if "t \<noteq> []" and "\<not> list_all string_team (players st)"
    using that by (simp add: get_players_by_team_def filter_team_error)
  from bad none blank some throws show ?thesis by blast
qed

theorem by_team_errors_witness:
  "get_players_by_team sample_store QAbsent =
      Response 400 (Message ''teamName query parameter is required'')
   \<and> get_players_by_team sample_store (QString '' Mumbai-Indians'') =
      Response 404 (Message ''No players found for team  Mumbai-Indians'')
   \<and> get_players_by_team sample_store (QString [CHR 0x09, CHR '' '']) =
      Response 404 (Message (''No players found for team '' @ [CHR 0x09, CHR '' '']))
   \<and> get_players_by_team null_team_store (QString '' Mumbai-Indians'') = Uncaught TypeError"
proof -
  have 1: "'' Mumbai-Indians'' \<noteq> []" by simp
  have 2: "list_all string_team (players sample_store)" by code_simp
  have 3: "\<not> list_ex (on_team (toLowerCase (js_trim '' Mumbai-Indians''))) (players sample_store)"
    by code_simp
  have 4: "[CHR 0x09, CHR '' ''] \<noteq> []" by simp
  have 5: "list_all js_space [CHR 0x09, CHR '' '']" by code_simp
  have 6: "\<not> list_ex (on_team []) (players sample_store)" by code_simp
  have 7: "\<not> list_all string_team (players null_team_store)" by code_simp
  note t = by_team_errors [of QAbsent sample_store "'' Mumbai-Indians''"]
  note u = by_team_errors [of QAbsent sample_store "[CHR 0x09, CHR '' '']"]
  note v = by_team_errors [of QAbsent null_team_store "'' Mumbai-Indians''"]
  have a: "get_players_by_team sample_store QAbsent =
      Response 400 (Message ''teamName query parameter is required'')"
    by (rule mp [OF t [THEN conjunct1]]) simp
  have "get_players_by_team sample_store (QString '' Mumbai-Indians'') =
      Response 404 (Message (''No players found for team '' @ '' Mumbai-Indians''))"
    by (rule mp [OF t [THEN conjunct2, THEN conjunct1]]) (intro conjI 1 2 3)
  then have b: "get_players_by_team sample_store (QString '' Mumbai-Indians'') =
      Response 404 (Message ''No players found for team  Mumbai-Indians'')" by simp
  have c: "get_players_by_team sample_store (QString [CHR 0x09, CHR '' '']) =
      Response 404 (Message (''No players found for team '' @ [CHR 0x09, CHR '' '']))"
    by (rule mp [OF u [THEN conjunct2, THEN conjunct2, THEN conjunct1]]) (intro conjI 4 5 6 2)
  have d: "get_players_by_team null_team_store (QString '' Mumbai-Indians'') = Uncaught TypeError"
    by (rule mp [OF v [THEN conjunct2, THEN conjunct2, THEN conjunct2, THEN conjunct2]])
      (intro conjI 1 7)
  from a b c d show ?thesis by (intro conjI)
qed

text \<open>
  C3 as stated fails on a team name of white space only: it is not rejected with 400 but
  looked up, and answered 404.
\<close>

theorem blank_team_counterexample:
  "list_all js_space ''   ''
   \<and> get_players_by_team sample_store (QString ''   '') =
       Response 404 (Message ''No players found for team    '')"
  by code_simp

end
